theory Spec2Isabelle
  imports Complex_Main "HOL-Library.Monad_Syntax"
begin

section \<open>Data model\<close>

text \<open>
  The chess engine works on plain data: a piece is an object with a type, a colour and
  an optional \<open>hasMoved\<close> flag (knights, bishops and queens are created without it),
  a position is a pair of numbers.
\<close>

datatype PieceType = Pawn | Rook | Knight | Bishop | Queen | King

datatype PieceColor = White | Black

record ChessPiece =
  type :: PieceType
  color :: PieceColor
  hasMoved :: "bool option"

record Position =
  row :: int
  col :: int

text \<open>
  A board is an array of eight rows, each row an array object. A row is read at
  arbitrary integer keys by the engine: a key that holds nothing (a hole, \<open>null\<close>, or an
  index that was never written, negative ones included) reads as a falsy value, here
  \<open>None\<close>; writing at a key stores the value under that key, also when the key is
  negative. Only the rows \<open>0..7\<close> exist: indexing a missing row and then a column
  throws a \<open>TypeError\<close>, which the functions below return as an error value.
\<close>

type_synonym Board = "int \<Rightarrow> int \<Rightarrow> ChessPiece option"

datatype error = TypeError

text \<open>
  Rows and columns are JavaScript numbers; the engine only adds and subtracts small
  integers to them, and they are integers here.

  A computation of the engine either returns a value, throws, or never returns a value
  because one of its loops does not stop: \<open>None\<close> is "does not return",
  \<open>Some (Inl e)\<close> is "throws e", \<open>Some (Inr v)\<close> is "returns v". (A loop that
  counts a column down without end stays, in double arithmetic, at \<open>-2^53\<close> for
  ever, and one that also pushes onto an array goes on until the engine gives up; neither
  returns.)
\<close>

type_synonym 'a result = "(error + 'a) option"

definition returnR :: "'a \<Rightarrow> 'a result" where
  "returnR v = Some (Inr v)"

definition bindR :: "'a result \<Rightarrow> ('a \<Rightarrow> 'b result) \<Rightarrow> 'b result" where
  "bindR m f = (case m of None \<Rightarrow> None | Some (Inl e) \<Rightarrow> Some (Inl e) | Some (Inr v) \<Rightarrow> f v)"

definition liftO :: "'a option \<Rightarrow> 'a result" where
  "liftO m = map_option Inr m"

definition validRow :: "int \<Rightarrow> bool" where
  "validRow r = (0 \<le> r \<and> r < 8)"

definition setCell :: "Board \<Rightarrow> int \<Rightarrow> int \<Rightarrow> ChessPiece option \<Rightarrow> Board" where
  "setCell board r c v = board(r := (board r)(c := v))"

text \<open>
  \<open>JSON.parse(JSON.stringify(board))\<close>: a deep copy of the eight rows. Serialising an
  array writes its elements \<open>0 .. length - 1\<close> only, and only the array indices, the
  integers from 0 to \<open>2^32 - 2\<close>, count for the length. Whatever a row carries under
  another key, a negative one or one from \<open>2^32 - 1 = 4294967295\<close> on, is an ordinary
  property and is not copied.
\<close>

definition clone :: "Board \<Rightarrow> Board" where
  "clone board =
     (\<lambda>r c. if 0 \<le> r \<and> r < 8 \<and> 0 \<le> c \<and> c < 4294967295 then board r c else None)"

text \<open>A board as the data model describes it: nothing outside the 8 x 8 grid.\<close>

definition wfBoard :: "Board \<Rightarrow> bool" where
  "wfBoard board = (\<forall>r c. board r c \<noteq> None \<longrightarrow> 0 \<le> r \<and> r < 8 \<and> 0 \<le> c \<and> c < 8)"

definition emptyBoard :: Board where
  "emptyBoard = (\<lambda>r c. None)"

fun setUpPawns :: "Board \<Rightarrow> int list \<Rightarrow> Board" where
  "setUpPawns board [] = board"
| "setUpPawns board (i # rest) =
     setUpPawns
       (setCell
          (setCell board 1 i (Some \<lparr>type = Pawn, color = Black, hasMoved = Some False\<rparr>))
          6 i (Some \<lparr>type = Pawn, color = White, hasMoved = Some False\<rparr>))
       rest"

definition initialBoard :: Board where
  "initialBoard =
    (let board = setUpPawns emptyBoard [0, 1, 2, 3, 4, 5, 6, 7];
         board = setCell board 0 0 (Some \<lparr>type = Rook, color = Black, hasMoved = Some False\<rparr>);
         board = setCell board 0 7 (Some \<lparr>type = Rook, color = Black, hasMoved = Some False\<rparr>);
         board = setCell board 7 0 (Some \<lparr>type = Rook, color = White, hasMoved = Some False\<rparr>);
         board = setCell board 7 7 (Some \<lparr>type = Rook, color = White, hasMoved = Some False\<rparr>);
         board = setCell board 0 1 (Some \<lparr>type = Knight, color = Black, hasMoved = None\<rparr>);
         board = setCell board 0 6 (Some \<lparr>type = Knight, color = Black, hasMoved = None\<rparr>);
         board = setCell board 7 1 (Some \<lparr>type = Knight, color = White, hasMoved = None\<rparr>);
         board = setCell board 7 6 (Some \<lparr>type = Knight, color = White, hasMoved = None\<rparr>);
         board = setCell board 0 2 (Some \<lparr>type = Bishop, color = Black, hasMoved = None\<rparr>);
         board = setCell board 0 5 (Some \<lparr>type = Bishop, color = Black, hasMoved = None\<rparr>);
         board = setCell board 7 2 (Some \<lparr>type = Bishop, color = White, hasMoved = None\<rparr>);
         board = setCell board 7 5 (Some \<lparr>type = Bishop, color = White, hasMoved = None\<rparr>);
         board = setCell board 0 3 (Some \<lparr>type = Queen, color = Black, hasMoved = None\<rparr>);
         board = setCell board 7 3 (Some \<lparr>type = Queen, color = White, hasMoved = None\<rparr>);
         board = setCell board 0 4 (Some \<lparr>type = King, color = Black, hasMoved = Some False\<rparr>);
         board = setCell board 7 4 (Some \<lparr>type = King, color = White, hasMoved = Some False\<rparr>)
     in board)"

section \<open>Attack detector\<close>

text \<open>The bounds check of the source: the row is checked on both sides, the column
  against the upper bound only.\<close>

definition isValidPosition :: "int \<Rightarrow> int \<Rightarrow> bool" where
  "isValidPosition r c = (r \<ge> 0 \<and> r < 8 \<and> c < 8)"

text \<open>The test \<open>isValidPosition(r, c) && board[r][c]?.type === t && board[r][c]?.color !== kingColor\<close>
  that the pawn, knight and king checks share.\<close>

definition hostileAt :: "Board \<Rightarrow> PieceType \<Rightarrow> PieceColor \<Rightarrow> int \<Rightarrow> int \<Rightarrow> bool" where
  "hostileAt board t kingColor r c =
     (isValidPosition r c \<and>
      (case board r c of None \<Rightarrow> False | Some p \<Rightarrow> type p = t \<and> color p \<noteq> kingColor))"

definition knightMoves :: "(int \<times> int) list" where
  "knightMoves = [(-2, -1), (-2, 1), (-1, -2), (-1, 2), (1, -2), (1, 2), (2, -1), (2, 1)]"

definition kingMoves :: "(int \<times> int) list" where
  "kingMoves = [(-1, -1), (-1, 0), (-1, 1), (0, -1), (0, 1), (1, -1), (1, 0), (1, 1)]"

definition directions :: "(int \<times> int \<times> PieceType list) list" where
  "directions =
     [(-1, 0, [Rook, Queen]), (1, 0, [Rook, Queen]), (0, -1, [Rook, Queen]), (0, 1, [Rook, Queen]),
      (-1, -1, [Bishop, Queen]), (-1, 1, [Bishop, Queen]), (1, -1, [Bishop, Queen]),
      (1, 1, [Bishop, Queen])]"

text \<open>
  The \<open>while (isValidPosition(r, c))\<close> loop of one sliding direction, started at
  \<open>(r, c)\<close>: \<open>Some True\<close> when the first piece met is a hostile one of a listed type
  (the function returns true), \<open>Some False\<close> when the ray is blocked or leaves the
  board (the loop ends), \<open>None\<close> when the loop does not end.
\<close>

partial_function (option) attackRay ::
  "Board \<Rightarrow> PieceColor \<Rightarrow> PieceType list \<Rightarrow> int \<Rightarrow> int \<Rightarrow> int \<Rightarrow> int \<Rightarrow> bool option" where
  "attackRay board kingColor pieces dr dc r c =
     (if isValidPosition r c then
        (case board r c of
           Some p \<Rightarrow> Some (color p \<noteq> kingColor \<and> type p \<in> set pieces)
         | None \<Rightarrow> attackRay board kingColor pieces dr dc (r + dr) (c + dc))
      else Some False)"

declare attackRay.simps [code]

text \<open>The \<open>for\<close> loop over the eight directions: the first ray that finds an attacker
  makes the function return true, a ray that never ends keeps it from returning.\<close>

fun attackRays ::
  "Board \<Rightarrow> PieceColor \<Rightarrow> int \<Rightarrow> int \<Rightarrow> (int \<times> int \<times> PieceType list) list \<Rightarrow> bool option" where
  "attackRays board kingColor kingRow kingCol [] = Some False"
| "attackRays board kingColor kingRow kingCol ((dr, dc, pieces) # rest) =
     (case attackRay board kingColor pieces dr dc (kingRow + dr) (kingCol + dc) of
        None \<Rightarrow> None
      | Some True \<Rightarrow> Some True
      | Some False \<Rightarrow> attackRays board kingColor kingRow kingCol rest)"

text \<open>
  \<open>isKingUnderAttack\<close>: the two pawn squares (one row from the king in the direction
  \<open>pawnDirection\<close>), the knight offsets, the king offsets, then the eight rays, in the
  order of the source. Every read of the board is guarded by \<open>isValidPosition\<close>, so
  the row read always exists and the function does not throw.
\<close>

definition isKingUnderAttack :: "Board \<Rightarrow> int \<Rightarrow> int \<Rightarrow> PieceColor \<Rightarrow> bool option" where
  "isKingUnderAttack board kingRow kingCol kingColor =
     (let pawnDirection = (if kingColor = White then 1 else -1) in
      if hostileAt board Pawn kingColor (kingRow + pawnDirection) (kingCol - 1) then Some True
      else if hostileAt board Pawn kingColor (kingRow + pawnDirection) (kingCol + 1) then Some True
      else if list_ex (\<lambda>(dr, dc). hostileAt board Knight kingColor (kingRow + dr) (kingCol + dc))
                knightMoves then Some True
      else if list_ex (\<lambda>(dr, dc). hostileAt board King kingColor (kingRow + dr) (kingCol + dc))
                kingMoves then Some True
      else attackRays board kingColor kingRow kingCol directions)"

section \<open>Check oracle\<close>

definition allSquares :: "(int \<times> int) list" where
  "allSquares = concat (map (\<lambda>r. map (\<lambda>c. (r, c)) [0, 1, 2, 3, 4, 5, 6, 7]) [0, 1, 2, 3, 4, 5, 6, 7])"

text \<open>The king search that \<open>wouldBeInCheck\<close> and \<open>isCheck\<close> both carry inline: the
  first square in row-major order holding a king of the colour, \<open>(-1, -1)\<close> when there
  is none.\<close>

definition findKing :: "Board \<Rightarrow> PieceColor \<Rightarrow> int \<times> int" where
  "findKing board c =
     (case List.find (\<lambda>(r, k). case board r k of None \<Rightarrow> False
                                | Some p \<Rightarrow> type p = King \<and> color p = c) allSquares of
        None \<Rightarrow> (-1, -1)
      | Some rk \<Rightarrow> rk)"

text \<open>
  \<open>wouldBeInCheck\<close>: the move is made on a copy, by two assignments; the king is the
  moved piece when that is a king, the first king of the colour otherwise. The
  assignments index the rows \<open>toRow\<close> and \<open>fromRow\<close> unguarded.
\<close>

definition wouldBeInCheck ::
  "Board \<Rightarrow> int \<Rightarrow> int \<Rightarrow> int \<Rightarrow> int \<Rightarrow> PieceColor \<Rightarrow> bool result" where
  "wouldBeInCheck board fromRow fromCol toRow toCol pieceColor =
     (if validRow toRow \<and> validRow fromRow then
        let tempBoard = clone board;
            tempBoard = setCell tempBoard toRow toCol (tempBoard fromRow fromCol);
            tempBoard = setCell tempBoard fromRow fromCol None;
            (kingRow, kingCol) =
               (if map_option type (tempBoard toRow toCol) = Some King then (toRow, toCol)
                else findKing tempBoard pieceColor)
        in liftO (isKingUnderAttack tempBoard kingRow kingCol pieceColor)
      else Some (Inl TypeError))"

definition isCheck :: "Board \<Rightarrow> PieceColor \<Rightarrow> bool option" where
  "isCheck board c =
     (let (kingRow, kingCol) = findKing board c
      in isKingUnderAttack board kingRow kingCol c)"

section \<open>Legal move generator\<close>

text \<open>The two closures of \<open>getPossibleMoves\<close>, with the board and the piece they
  capture as arguments.\<close>

definition isEmptyOrCapture :: "Board \<Rightarrow> ChessPiece \<Rightarrow> int \<Rightarrow> int \<Rightarrow> bool" where
  "isEmptyOrCapture board piece r c =
     (if \<not> isValidPosition r c then False
      else case board r c of None \<Rightarrow> True | Some other \<Rightarrow> color other \<noteq> color piece)"

definition isEmpty :: "Board \<Rightarrow> int \<Rightarrow> int \<Rightarrow> bool" where
  "isEmpty board r c = (if \<not> isValidPosition r c then False else board r c = None)"

text \<open>
  The \<open>while (isValidPosition(r, c))\<close> loop of the rook, bishop and queen cases for one
  direction, started at \<open>(r, c)\<close>: the destinations it pushes, in order. The loop
  pushes for as long as the squares are empty and counted valid; when that never stops,
  the function never returns (\<open>None\<close>).
\<close>

partial_function (option) slideRay ::
  "Board \<Rightarrow> ChessPiece \<Rightarrow> int \<Rightarrow> int \<Rightarrow> int \<Rightarrow> int \<Rightarrow> Position list option" where
  "slideRay board piece dr dc r c =
     (if isValidPosition r c then
        (if isEmpty board r c then
           do { rest \<leftarrow> slideRay board piece dr dc (r + dr) (c + dc);
                Some (\<lparr>row = r, col = c\<rparr> # rest) }
         else if map_option color (board r c) \<noteq> Some (color piece) then
           Some [\<lparr>row = r, col = c\<rparr>]
         else Some [])
      else Some [])"

declare slideRay.simps [code]

text \<open>The \<open>for\<close> loop over the directions of a rook, bishop or queen.\<close>

fun slideRays ::
  "Board \<Rightarrow> ChessPiece \<Rightarrow> int \<Rightarrow> int \<Rightarrow> (int \<times> int) list \<Rightarrow> Position list option" where
  "slideRays board piece pRow pCol [] = Some []"
| "slideRays board piece pRow pCol ((dr, dc) # rest) =
     do { ms \<leftarrow> slideRay board piece dr dc (pRow + dr) (pCol + dc);
          more \<leftarrow> slideRays board piece pRow pCol rest;
          Some (ms @ more) }"

definition rookDirections :: "(int \<times> int) list" where
  "rookDirections = [(-1, 0), (1, 0), (0, -1), (0, 1)]"

definition bishopDirections :: "(int \<times> int) list" where
  "bishopDirections = [(-1, -1), (-1, 1), (1, -1), (1, 1)]"

definition queenDirections :: "(int \<times> int) list" where
  "queenDirections = [(-1, 0), (1, 0), (0, -1), (0, 1), (-1, -1), (-1, 1), (1, -1), (1, 1)]"

text \<open>The pawn case: one step forward, two steps when the flag is not set, then the
  two diagonal captures.\<close>

definition pawnMoves :: "Board \<Rightarrow> ChessPiece \<Rightarrow> int \<Rightarrow> int \<Rightarrow> Position list" where
  "pawnMoves board piece pRow pCol =
     (let direction = (if color piece = White then -1 else 1) in
        (if isEmpty board (pRow + direction) pCol then
           \<lparr>row = pRow + direction, col = pCol\<rparr> #
           (if hasMoved piece \<noteq> Some True \<and> isEmpty board (pRow + direction) pCol
               \<and> isEmpty board (pRow + 2 * direction) pCol
            then [\<lparr>row = pRow + 2 * direction, col = pCol\<rparr>] else [])
         else [])
        @ (if isValidPosition (pRow + direction) (pCol - 1)
              \<and> board (pRow + direction) (pCol - 1) \<noteq> None
              \<and> map_option color (board (pRow + direction) (pCol - 1)) \<noteq> Some (color piece)
           then [\<lparr>row = pRow + direction, col = pCol - 1\<rparr>] else [])
        @ (if isValidPosition (pRow + direction) (pCol + 1)
              \<and> board (pRow + direction) (pCol + 1) \<noteq> None
              \<and> map_option color (board (pRow + direction) (pCol + 1)) \<noteq> Some (color piece)
           then [\<lparr>row = pRow + direction, col = pCol + 1\<rparr>] else []))"

text \<open>The knight and king loops over a fixed list of offsets.\<close>

definition stepMoves ::
  "Board \<Rightarrow> ChessPiece \<Rightarrow> int \<Rightarrow> int \<Rightarrow> (int \<times> int) list \<Rightarrow> Position list" where
  "stepMoves board piece pRow pCol offsets =
     map (\<lambda>(dr, dc). \<lparr>row = pRow + dr, col = pCol + dc\<rparr>)
       (filter (\<lambda>(dr, dc). isEmptyOrCapture board piece (pRow + dr) (pCol + dc)) offsets)"

text \<open>
  The condition
  \<open>!isCheck(board, color) && !wouldBeInCheck(.., col + s) && !wouldBeInCheck(.., col + 2 * s)\<close>
  of the two castling blocks (\<open>s = 1\<close> kingside, \<open>s = -1\<close> queenside), evaluated left
  to right and stopping at the first conjunct that is false.
\<close>

definition castlePathSafe :: "Board \<Rightarrow> int \<Rightarrow> int \<Rightarrow> int \<Rightarrow> PieceColor \<Rightarrow> bool result" where
  "castlePathSafe board pRow pCol s c =
     bindR (liftO (isCheck board c)) (\<lambda>inCheck.
       if inCheck then returnR False
       else bindR (wouldBeInCheck board pRow pCol pRow (pCol + s) c) (\<lambda>transit.
         if transit then returnR False
         else bindR (wouldBeInCheck board pRow pCol pRow (pCol + 2 * s) c) (\<lambda>dest.
           returnR (\<not> dest))))"

text \<open>The outer conditions of the two castling blocks: the rook in the corner of
  column 7 (column 0), of the king's colour, flag not set, and the fixed columns 5, 6
  (1, 2, 3) of the row empty.\<close>

definition kingsideGuard :: "Board \<Rightarrow> ChessPiece \<Rightarrow> int \<Rightarrow> bool" where
  "kingsideGuard board piece pRow =
     (map_option type (board pRow 7) = Some Rook
      \<and> map_option color (board pRow 7) = Some (color piece)
      \<and> (case board pRow 7 of None \<Rightarrow> True | Some rook \<Rightarrow> hasMoved rook \<noteq> Some True)
      \<and> board pRow 5 = None \<and> board pRow 6 = None)"

definition queensideGuard :: "Board \<Rightarrow> ChessPiece \<Rightarrow> int \<Rightarrow> bool" where
  "queensideGuard board piece pRow =
     (map_option type (board pRow 0) = Some Rook
      \<and> map_option color (board pRow 0) = Some (color piece)
      \<and> (case board pRow 0 of None \<Rightarrow> True | Some rook \<Rightarrow> hasMoved rook \<noteq> Some True)
      \<and> board pRow 1 = None \<and> board pRow 2 = None \<and> board pRow 3 = None)"

text \<open>The castling part of the king case: what the kingside block pushes, then what the
  queenside block pushes.\<close>

definition castlingMoves :: "Board \<Rightarrow> ChessPiece \<Rightarrow> int \<Rightarrow> int \<Rightarrow> Position list result" where
  "castlingMoves board piece pRow pCol =
     (if hasMoved piece \<noteq> Some True then
        bindR (if kingsideGuard board piece pRow
               then bindR (castlePathSafe board pRow pCol 1 (color piece)) (\<lambda>ok.
                      returnR (if ok then [\<lparr>row = pRow, col = pCol + 2\<rparr>] else []))
               else returnR []) (\<lambda>kingside.
        bindR (if queensideGuard board piece pRow
               then bindR (castlePathSafe board pRow pCol (-1) (color piece)) (\<lambda>ok.
                      returnR (if ok then [\<lparr>row = pRow, col = pCol - 2\<rparr>] else []))
               else returnR []) (\<lambda>queenside.
        returnR (kingside @ queenside)))
      else returnR [])"

text \<open>\<open>getRawMoves\<close>, the \<open>switch\<close> on the type of the piece. It is only called by
  \<open>getPossibleMoves\<close>, with the same board and square.\<close>

definition getRawMoves :: "Board \<Rightarrow> int \<Rightarrow> int \<Rightarrow> Position list result" where
  "getRawMoves board pRow pCol =
     (if \<not> validRow pRow then Some (Inl TypeError)
      else case board pRow pCol of
        None \<Rightarrow> returnR []
      | Some piece \<Rightarrow>
         (case type piece of
            Pawn \<Rightarrow> returnR (pawnMoves board piece pRow pCol)
          | Rook \<Rightarrow> liftO (slideRays board piece pRow pCol rookDirections)
          | Knight \<Rightarrow> returnR (stepMoves board piece pRow pCol knightMoves)
          | Bishop \<Rightarrow> liftO (slideRays board piece pRow pCol bishopDirections)
          | Queen \<Rightarrow> liftO (slideRays board piece pRow pCol queenDirections)
          | King \<Rightarrow>
              bindR (castlingMoves board piece pRow pCol) (\<lambda>castles.
                returnR (stepMoves board piece pRow pCol kingMoves @ castles))))"

text \<open>The filtering loop of \<open>getPossibleMoves\<close>: a raw move is kept when
  \<open>wouldBeInCheck\<close> returns false for it.\<close>

fun filterMoves ::
  "Board \<Rightarrow> int \<Rightarrow> int \<Rightarrow> PieceColor \<Rightarrow> Position list \<Rightarrow> Position list result" where
  "filterMoves board pRow pCol c [] = returnR []"
| "filterMoves board pRow pCol c (move # rest) =
     bindR (wouldBeInCheck board pRow pCol (row move) (col move) c) (\<lambda>inCheck.
       bindR (filterMoves board pRow pCol c rest) (\<lambda>kept.
         returnR (if inCheck then kept else move # kept)))"

definition getPossibleMoves :: "Board \<Rightarrow> int \<Rightarrow> int \<Rightarrow> Position list result" where
  "getPossibleMoves board pRow pCol =
     (if \<not> validRow pRow then Some (Inl TypeError)
      else case board pRow pCol of
        None \<Rightarrow> returnR []
      | Some piece \<Rightarrow>
          bindR (getRawMoves board pRow pCol) (\<lambda>rawMoves.
            filterMoves board pRow pCol (color piece) rawMoves))"

section \<open>Move executor\<close>

text \<open>
  \<open>movePiece\<close> works on a deep copy and returns it. The piece that moves is one object:
  the promotion and the \<open>hasMoved\<close> update change its fields and the destination then
  refers to it. The castling block copies the reference found in the rook's corner to
  the rook's new square before those updates; only when that corner is the square the
  king itself leaves does the copied reference denote the moving piece, and then it
  shows the updated fields.
\<close>

definition movePiece ::
  "Board \<Rightarrow> int \<Rightarrow> int \<Rightarrow> int \<Rightarrow> int \<Rightarrow> PieceType option \<Rightarrow> error + Board" where
  "movePiece board fromRow fromCol toRow toCol promotionPiece =
     (if \<not> validRow fromRow then Inl TypeError
      else
        let newBoard = clone board in
        case newBoard fromRow fromCol of
          None \<Rightarrow> Inr newBoard
        | Some piece \<Rightarrow>
            if \<not> validRow toRow then Inl TypeError
            else
              let castling = (type piece = King \<and> \<bar>fromCol - toCol\<bar> = 2);
                  rookFrom = (if toCol > fromCol then 7 else 0);
                  rookTo = (if toCol > fromCol then 5 else 3);
                  promoted =
                    (if type piece = Pawn \<and> (toRow = 0 \<or> toRow = 7)
                     then piece\<lparr>type := (case promotionPiece of None \<Rightarrow> Queen | Some t \<Rightarrow> t)\<rparr>
                     else piece);
                  moved =
                    (if type promoted = King \<or> type promoted = Rook \<or> type promoted = Pawn
                     then promoted\<lparr>hasMoved := Some True\<rparr>
                     else promoted);
                  newBoard =
                    (if castling then
                       setCell
                         (setCell newBoard toRow rookTo
                            (if toRow = fromRow \<and> rookFrom = fromCol then Some moved
                             else newBoard toRow rookFrom))
                         toRow rookFrom None
                     else newBoard);
                  newBoard = setCell newBoard toRow toCol (Some moved);
                  newBoard = setCell newBoard fromRow fromCol None
              in Inr newBoard)"

section \<open>Checkmate oracle and evaluator\<close>

text \<open>The double loop of \<open>isCheckmate\<close> over the squares in row-major order.\<close>

fun anyLegalMove :: "Board \<Rightarrow> PieceColor \<Rightarrow> (int \<times> int) list \<Rightarrow> bool result" where
  "anyLegalMove board c [] = returnR False"
| "anyLegalMove board c ((r, k) # rest) =
     (case board r k of
        None \<Rightarrow> anyLegalMove board c rest
      | Some piece \<Rightarrow>
          if color piece = c then
            bindR (getPossibleMoves board r k) (\<lambda>moves.
              if length moves > 0 then returnR True else anyLegalMove board c rest)
          else anyLegalMove board c rest)"

text \<open>\<open>isCheckmate\<close>: false at once when \<open>isCheck\<close> is false, else true when the
  scan finds no piece of the colour with a move.\<close>

definition isCheckmate :: "Board \<Rightarrow> PieceColor \<Rightarrow> bool result" where
  "isCheckmate board c =
     bindR (liftO (isCheck board c)) (\<lambda>inCheck.
       if \<not> inCheck then returnR False
       else bindR (anyLegalMove board c allSquares) (\<lambda>found. returnR (\<not> found)))"

text \<open>
  The score is a double. Its arithmetic is not modelled: a number is the expression the
  code computes, a literal or a double addition, subtraction or negation of numbers, so
  that nothing is assumed about rounding. Two results are equal here when the code
  computes them by the same operations from the same literals; in particular a result
  \<open>NumLit x\<close> is the literal \<open>x\<close> itself.
\<close>

datatype number = NumLit rat | NumAdd number number | NumSub number number | NumNeg number

definition pieceValues :: "PieceType \<Rightarrow> number" where
  "pieceValues t =
     (case t of Pawn \<Rightarrow> NumLit 1 | Knight \<Rightarrow> NumLit 3 | Bishop \<Rightarrow> NumLit 3
              | Rook \<Rightarrow> NumLit 5 | Queen \<Rightarrow> NumLit 9 | King \<Rightarrow> NumLit 0)"

definition centerSquares :: "(int \<times> int) list" where
  "centerSquares = concat (map (\<lambda>r. map (\<lambda>c. (r, c)) [2, 3, 4, 5]) [2, 3, 4, 5])"

text \<open>The material loop and the centre loop: each occupied square adds to the running
  \<open>score\<close>, in the order the loops visit the squares.\<close>

definition materialScore :: "Board \<Rightarrow> number \<Rightarrow> number" where
  "materialScore board score0 =
     foldl (\<lambda>score (r, c). case board r c of
                None \<Rightarrow> score
              | Some piece \<Rightarrow>
                  (let value = pieceValues (type piece)
                   in NumAdd score (if color piece = White then value else NumNeg value)))
       score0 allSquares"

definition centerScore :: "Board \<Rightarrow> number \<Rightarrow> number" where
  "centerScore board score0 =
     foldl (\<lambda>score (r, c). case board r c of
                None \<Rightarrow> score
              | Some piece \<Rightarrow>
                  (let centerValue =
                         (if (r = 3 \<or> r = 4) \<and> (c = 3 \<or> c = 4) then NumLit (3 / 10)
                          else NumLit (1 / 10))
                   in NumAdd score
                        (if color piece = White then centerValue else NumNeg centerValue)))
       score0 centerSquares"

text \<open>\<open>evaluateBoard\<close>: the score, overridden by the checkmate tests, White's first.\<close>

definition evaluateBoard :: "Board \<Rightarrow> number result" where
  "evaluateBoard board =
     (let score = NumLit 0;
          score = materialScore board score;
          score = centerScore board score in
      bindR (isCheckmate board White) (\<lambda>whiteMated.
        if whiteMated then returnR (NumLit (-1000))
        else bindR (isCheckmate board Black) (\<lambda>blackMated.
          if blackMated then returnR (NumLit 1000)
          else bindR (liftO (isCheck board White)) (\<lambda>whiteChecked.
            if whiteChecked then returnR (NumSub score (NumLit (1 / 2)))
            else bindR (liftO (isCheck board Black)) (\<lambda>blackChecked.
              if blackChecked then returnR (NumAdd score (NumLit (1 / 2)))
              else returnR score)))))"

section \<open>Playing a game\<close>

definition opponent :: "PieceColor \<Rightarrow> PieceColor" where
  "opponent c = (if c = White then Black else White)"

definition kingCount :: "Board \<Rightarrow> PieceColor \<Rightarrow> nat" where
  "kingCount board c =
     length (filter (\<lambda>(r, k). case board r k of None \<Rightarrow> False
                                | Some p \<Rightarrow> type p = King \<and> color p = c) allSquares)"

text \<open>
  A game as the invariant on kings speaks of it: from a board with a side to move, each
  move in turn is made for that side, it is one that \<open>getPossibleMoves\<close> returned for
  the square it starts from, neither side is reported checkmated on the board it is made
  on, and \<open>movePiece\<close> (without a promotion argument) gives the next board. The result
  is the board after the last move, and \<open>None\<close> when the sequence is not such a game.
\<close>

definition legalStep :: "Board \<Rightarrow> PieceColor \<Rightarrow> Position \<times> Position \<Rightarrow> Board option" where
  "legalStep board side move =
     (case move of (src, dst) \<Rightarrow>
        (case board (row src) (col src) of
           None \<Rightarrow> None
         | Some piece \<Rightarrow>
             if color piece = side
                \<and> isCheckmate board White = Some (Inr False)
                \<and> isCheckmate board Black = Some (Inr False)
             then
               (case getPossibleMoves board (row src) (col src) of
                  Some (Inr moves) \<Rightarrow>
                    if dst \<in> set moves then
                      (case movePiece board (row src) (col src) (row dst) (col dst) None of
                         Inr board' \<Rightarrow> Some board'
                       | Inl e \<Rightarrow> None)
                    else None
                | _ \<Rightarrow> None)
             else None))"

fun playMoves :: "Board \<Rightarrow> PieceColor \<Rightarrow> (Position \<times> Position) list \<Rightarrow> Board option" where
  "playMoves board side [] = Some board"
| "playMoves board side (move # rest) =
     (case legalStep board side move of
        None \<Rightarrow> None
      | Some board' \<Rightarrow> playMoves board' (opponent side) rest)"

section \<open>Positions used below\<close>

text \<open>Two kings in opposite corners, the white one on a1.\<close>

definition cornerKings :: Board where
  "cornerKings =
     setCell (setCell emptyBoard 7 0 (Some \<lparr>type = King, color = White, hasMoved = Some True\<rparr>))
       0 7 (Some \<lparr>type = King, color = Black, hasMoved = Some True\<rparr>)"

text \<open>The starting position with b1, c1 and d1 cleared: White may castle queenside.\<close>

definition queensideReady :: Board where
  "queensideReady = setCell (setCell (setCell initialBoard 7 1 None) 7 2 None) 7 3 None"

text \<open>The board after the king has gone from e1 to c1 and the rook from a1 to d1.\<close>

definition afterQueenside :: Board where
  "afterQueenside =
     setCell (setCell (setCell (setCell queensideReady
       7 3 (Some \<lparr>type = Rook, color = White, hasMoved = Some False\<rparr>))
       7 0 None)
       7 2 (Some \<lparr>type = King, color = White, hasMoved = Some True\<rparr>))
       7 4 None"

text \<open>The starting position with f1 and g1 cleared: White may castle kingside.\<close>

definition kingsideReady :: Board where
  "kingsideReady = setCell (setCell initialBoard 7 5 None) 7 6 None"

text \<open>The starting position rearranged on White's back rank: the unmoved king on c1,
  a bishop on d1, and e1, f1, g1 empty.\<close>

definition kingOnC1 :: Board where
  "kingOnC1 =
     setCell (setCell (setCell (setCell (setCell initialBoard
       7 2 (Some \<lparr>type = King, color = White, hasMoved = Some False\<rparr>))
       7 3 (Some \<lparr>type = Bishop, color = White, hasMoved = None\<rparr>))
       7 4 None) 7 5 None) 7 6 None"

text \<open>Black smothered in the corner h8 by a white knight on f7, and White's king safe on h1.\<close>

definition blackSmothered :: Board where
  "blackSmothered =
     (let board = setCell emptyBoard 7 7 (Some \<lparr>type = King, color = White, hasMoved = Some True\<rparr>);
          board = setCell board 7 6 (Some \<lparr>type = Knight, color = White, hasMoved = None\<rparr>);
          board = setCell board 6 6 (Some \<lparr>type = Pawn, color = White, hasMoved = Some True\<rparr>);
          board = setCell board 6 7 (Some \<lparr>type = Pawn, color = White, hasMoved = Some True\<rparr>);
          board = setCell board 0 7 (Some \<lparr>type = King, color = Black, hasMoved = Some True\<rparr>);
          board = setCell board 0 6 (Some \<lparr>type = Knight, color = Black, hasMoved = None\<rparr>);
          board = setCell board 1 6 (Some \<lparr>type = Pawn, color = Black, hasMoved = Some True\<rparr>);
          board = setCell board 1 7 (Some \<lparr>type = Pawn, color = Black, hasMoved = Some True\<rparr>);
          board = setCell board 1 5 (Some \<lparr>type = Knight, color = White, hasMoved = None\<rparr>)
      in board)"

text \<open>The same with a black knight on f2 as well: both kings are smothered.\<close>

definition bothSmothered :: Board where
  "bothSmothered =
     setCell blackSmothered 6 5 (Some \<lparr>type = Knight, color = Black, hasMoved = None\<rparr>)"

text \<open>The two corner kings and a white pawn on a7, one step from promotion.\<close>

definition pawnOnA7 :: Board where
  "pawnOnA7 = setCell cornerKings 1 0 (Some \<lparr>type = Pawn, color = White, hasMoved = Some True\<rparr>)"

text \<open>1. d4 e6 2. d5 Ke7 3. d6 a6 4. d6 x e7, in board coordinates.\<close>

definition kingHunt :: "(Position \<times> Position) list" where
  "kingHunt =
     [(\<lparr>row = 6, col = 3\<rparr>, \<lparr>row = 4, col = 3\<rparr>),
      (\<lparr>row = 1, col = 4\<rparr>, \<lparr>row = 2, col = 4\<rparr>),
      (\<lparr>row = 4, col = 3\<rparr>, \<lparr>row = 3, col = 3\<rparr>),
      (\<lparr>row = 0, col = 4\<rparr>, \<lparr>row = 1, col = 4\<rparr>),
      (\<lparr>row = 3, col = 3\<rparr>, \<lparr>row = 2, col = 3\<rparr>),
      (\<lparr>row = 1, col = 0\<rparr>, \<lparr>row = 2, col = 0\<rparr>),
      (\<lparr>row = 2, col = 3\<rparr>, \<lparr>row = 1, col = 4\<rparr>)]"

text \<open>The boards of that game, one after each move.\<close>

definition hunt1 :: Board where
  "hunt1 = setCell (setCell initialBoard 4 3
             (Some \<lparr>type = Pawn, color = White, hasMoved = Some True\<rparr>)) 6 3 None"

definition hunt2 :: Board where
  "hunt2 = setCell (setCell hunt1 2 4
             (Some \<lparr>type = Pawn, color = Black, hasMoved = Some True\<rparr>)) 1 4 None"

definition hunt3 :: Board where
  "hunt3 = setCell (setCell hunt2 3 3
             (Some \<lparr>type = Pawn, color = White, hasMoved = Some True\<rparr>)) 4 3 None"

definition hunt4 :: Board where
  "hunt4 = setCell (setCell hunt3 1 4
             (Some \<lparr>type = King, color = Black, hasMoved = Some True\<rparr>)) 0 4 None"

definition hunt5 :: Board where
  "hunt5 = setCell (setCell hunt4 2 3
             (Some \<lparr>type = Pawn, color = White, hasMoved = Some True\<rparr>)) 3 3 None"

definition hunt6 :: Board where
  "hunt6 = setCell (setCell hunt5 2 0
             (Some \<lparr>type = Pawn, color = Black, hasMoved = Some True\<rparr>)) 1 0 None"

definition hunt7 :: Board where
  "hunt7 = setCell (setCell hunt6 1 4
             (Some \<lparr>type = Pawn, color = White, hasMoved = Some True\<rparr>)) 2 3 None"

section \<open>Auxiliary facts\<close>

lemma bindR_returns:
  "(bindR m f = Some (Inr v)) = (\<exists>x. m = Some (Inr x) \<and> f x = Some (Inr v))"
  by (auto simp: bindR_def split: option.splits sum.splits)

lemma returnR_returns: "(returnR x = Some (Inr v)) = (x = v)"
  by (simp add: returnR_def)

lemma liftO_returns: "(liftO m = Some (Inr v)) = (m = Some v)"
  by (cases m) (auto simp: liftO_def)

lemma clone_grid:
  "0 \<le> r \<Longrightarrow> r < 8 \<Longrightarrow> 0 \<le> c \<Longrightarrow> c < 8 \<Longrightarrow> clone board r c = board r c"
  by (simp add: clone_def)

lemma clone_wf:
  assumes "wfBoard board"
  shows "clone board = board"
proof (intro ext)
  fix r c
  show "clone board r c = board r c"
  proof (cases "board r c")
    case None
    then show ?thesis by (simp add: clone_def)
  next
    case (Some p)
    with assms have "0 \<le> r \<and> r < 8 \<and> 0 \<le> c \<and> c < 8"
      unfolding wfBoard_def by blast
    then show ?thesis by (simp add: clone_def)
  qed
qed

lemma wf_setCell:
  "wfBoard board \<Longrightarrow> 0 \<le> r \<Longrightarrow> r < 8 \<Longrightarrow> 0 \<le> c \<Longrightarrow> c < 8 \<Longrightarrow> wfBoard (setCell board r c v)"
  by (auto simp: wfBoard_def setCell_def)

lemma wf_emptyBoard: "wfBoard emptyBoard"
  by (simp add: wfBoard_def emptyBoard_def)

lemma wf_initialBoard: "wfBoard initialBoard"
  by (simp add: initialBoard_def Let_def wf_setCell wf_emptyBoard)

lemma wf_outside:
  assumes "wfBoard board" and "c < 0"
  shows "board r c = None"
proof (rule ccontr)
  assume "board r c \<noteq> None"
  with assms(1) have "0 \<le> c" unfolding wfBoard_def by blast
  with assms(2) show False by simp
qed

subsection \<open>The leftward ray\<close>

text \<open>
  On a row of the board, a ray going left over squares that hold nothing never stops:
  every column below 8 passes the bounds check, the negative ones as well. Any result of
  the loop contradicts that, by induction on the computation.
\<close>

lemma attackRay_left_no_result:
  assumes "attackRay board kc ps dr dc r c = Some y"
  shows "\<not> (dr = 0 \<and> dc = -1 \<and> 0 \<le> r \<and> r < 8 \<and> c < 8 \<and> (\<forall>k\<le>c. board r k = None))"
proof (rule attackRay.raw_induct
    [where P = "\<lambda>board kc ps dr dc r c y.
        \<not> (dr = 0 \<and> dc = -1 \<and> 0 \<le> r \<and> r < 8 \<and> c < 8 \<and> (\<forall>k\<le>c. board r k = None))",
     OF _ assms])
  fix f :: "Board \<Rightarrow> PieceColor \<Rightarrow> PieceType list \<Rightarrow> int \<Rightarrow> int \<Rightarrow> int \<Rightarrow> int \<Rightarrow> bool option"
  fix board kc ps dr dc r c y
  assume IH: "\<And>board kc ps dr dc r c y. f board kc ps dr dc r c = Some y \<Longrightarrow>
      \<not> (dr = 0 \<and> dc = -1 \<and> 0 \<le> r \<and> r < 8 \<and> c < 8 \<and> (\<forall>k\<le>c. board r k = None))"
  assume eq: "(if isValidPosition r c
         then case board r c of
                None \<Rightarrow> f board kc ps dr dc (r + dr) (c + dc)
              | Some p \<Rightarrow> Some (color p \<noteq> kc \<and> type p \<in> set ps)
         else Some False) = Some y"
  show "\<not> (dr = 0 \<and> dc = -1 \<and> 0 \<le> r \<and> r < 8 \<and> c < 8 \<and> (\<forall>k\<le>c. board r k = None))"
  proof
    assume a: "dr = 0 \<and> dc = -1 \<and> 0 \<le> r \<and> r < 8 \<and> c < 8 \<and> (\<forall>k\<le>c. board r k = None)"
    then have v: "isValidPosition r c" and e: "board r c = None"
      by (simp_all add: isValidPosition_def)
    from eq v e a have "f board kc ps 0 (-1) r (c - 1) = Some y"
      by simp
    from IH[OF this] a show False by simp
  qed
qed

lemma attackRay_left_diverges:
  assumes "0 \<le> r" "r < 8" "c < 8" "\<forall>k\<le>c. board r k = None"
  shows "attackRay board kc ps 0 (-1) r c = None"
proof (cases "attackRay board kc ps 0 (-1) r c")
  case None
  then show ?thesis .
next
  case (Some y)
  from attackRay_left_no_result[OF this] assms show ?thesis by simp
qed

text \<open>The detector reaches the leftward ray when the pawn, knight and king tests and the
  two vertical rays found nothing; with nothing to the left of the square it then never
  returns.\<close>

lemma isKingUnderAttack_left_open:
  assumes pre: "\<not> hostileAt board Pawn kc (r + (if kc = White then 1 else -1)) (c - 1)"
      "\<not> hostileAt board Pawn kc (r + (if kc = White then 1 else -1)) (c + 1)"
      "\<not> list_ex (\<lambda>(dr, dc). hostileAt board Knight kc (r + dr) (c + dc)) knightMoves"
      "\<not> list_ex (\<lambda>(dr, dc). hostileAt board King kc (r + dr) (c + dc)) kingMoves"
    and up: "attackRay board kc [Rook, Queen] (-1) 0 (r - 1) c = Some False"
    and down: "attackRay board kc [Rook, Queen] 1 0 (r + 1) c = Some False"
    and row: "0 \<le> r" "r < 8" "c \<le> 8" "\<forall>k<c. board r k = None"
  shows "isKingUnderAttack board r c kc = None"
proof -
  have left: "attackRay board kc [Rook, Queen] 0 (-1) r (c - 1) = None"
    using row attackRay_left_diverges[of r "c - 1" board kc "[Rook, Queen]"] by simp
  show ?thesis
    using pre by (simp add: isKingUnderAttack_def Let_def directions_def up down left)
qed

subsection \<open>The filtering loop and the king's raw moves\<close>

lemma filterMoves_Cons:
  "(filterMoves board pRow pCol c (m # raw) = Some (Inr kept)) =
     (\<exists>inCheck rest. wouldBeInCheck board pRow pCol (row m) (col m) c = Some (Inr inCheck)
        \<and> filterMoves board pRow pCol c raw = Some (Inr rest)
        \<and> kept = (if inCheck then rest else m # rest))"
  unfolding filterMoves.simps bindR_returns returnR_returns by blast

lemma filterMoves_set:
  "filterMoves board pRow pCol c raw = Some (Inr kept) \<Longrightarrow>
     set kept = {m \<in> set raw. wouldBeInCheck board pRow pCol (row m) (col m) c = Some (Inr False)}"
proof (induction raw arbitrary: kept)
  case Nil
  then show ?case by (simp add: returnR_returns)
next
  case (Cons m raw)
  from Cons.prems obtain inCheck rest where
    w: "wouldBeInCheck board pRow pCol (row m) (col m) c = Some (Inr inCheck)"
    and r: "filterMoves board pRow pCol c raw = Some (Inr rest)"
    and k: "kept = (if inCheck then rest else m # rest)"
    unfolding filterMoves_Cons by blast
  from Cons.IH[OF r] w k show ?case by (cases inCheck) auto
qed

lemma stepMoves_offset:
  "m \<in> set (stepMoves board piece pRow pCol offsets) \<Longrightarrow>
     \<exists>dr dc. (dr, dc) \<in> set offsets \<and> m = \<lparr>row = pRow + dr, col = pCol + dc\<rparr>"
  by (auto simp: stepMoves_def)

lemma stepMoves_col:
  assumes "m \<in> set (stepMoves board piece pRow pCol kingMoves)"
  shows "col m \<noteq> pCol + 2 \<and> col m \<noteq> pCol - 2"
proof -
  from stepMoves_offset[OF assms] obtain dr dc where
    "(dr, dc) \<in> set kingMoves" and "m = \<lparr>row = pRow + dr, col = pCol + dc\<rparr>"
    by blast
  then show ?thesis by (auto simp: kingMoves_def)
qed

lemma castlePathSafe_True:
  "(castlePathSafe board pRow pCol s c = Some (Inr True)) =
     (isCheck board c = Some False
      \<and> wouldBeInCheck board pRow pCol pRow (pCol + s) c = Some (Inr False)
      \<and> wouldBeInCheck board pRow pCol pRow (pCol + 2 * s) c = Some (Inr False))"
  by (auto simp: castlePathSafe_def bindR_returns returnR_returns liftO_returns)

lemma castlingMoves_kingside:
  assumes "castlingMoves board piece pRow pCol = Some (Inr castles)"
  shows "(\<lparr>row = pRow, col = pCol + 2\<rparr> \<in> set castles) =
          (hasMoved piece \<noteq> Some True \<and> kingsideGuard board piece pRow
           \<and> castlePathSafe board pRow pCol 1 (color piece) = Some (Inr True))"
  using assms
  by (auto simp: castlingMoves_def bindR_returns returnR_returns split: if_splits)

lemma castlingMoves_queenside:
  assumes "castlingMoves board piece pRow pCol = Some (Inr castles)"
  shows "(\<lparr>row = pRow, col = pCol - 2\<rparr> \<in> set castles) =
          (hasMoved piece \<noteq> Some True \<and> queensideGuard board piece pRow
           \<and> castlePathSafe board pRow pCol (-1) (color piece) = Some (Inr True))"
  using assms
  by (auto simp: castlingMoves_def bindR_returns returnR_returns split: if_splits)

lemma getPossibleMoves_king:
  assumes "board pRow pCol = Some king" and "type king = King"
    and "getPossibleMoves board pRow pCol = Some (Inr moves)"
  shows "\<exists>castles. castlingMoves board king pRow pCol = Some (Inr castles)
           \<and> set moves = {m \<in> set (stepMoves board king pRow pCol kingMoves @ castles).
                 wouldBeInCheck board pRow pCol (row m) (col m) (color king) = Some (Inr False)}"
proof -
  from assms(3) have v: "validRow pRow"
    by (auto simp: getPossibleMoves_def split: if_splits)
  from assms v obtain raw where
    raw: "getRawMoves board pRow pCol = Some (Inr raw)"
    and f: "filterMoves board pRow pCol (color king) raw = Some (Inr moves)"
    by (auto simp: getPossibleMoves_def bindR_returns)
  from raw assms(1,2) v obtain castles where
    c: "castlingMoves board king pRow pCol = Some (Inr castles)"
    and r: "raw = stepMoves board king pRow pCol kingMoves @ castles"
    by (auto simp: getRawMoves_def bindR_returns returnR_returns)
  from filterMoves_set[OF f] c r show ?thesis by blast
qed

subsection \<open>The checkmate scan\<close>

lemma anyLegalMove_none:
  "(anyLegalMove board c sqs = Some (Inr False)) =
     list_all (\<lambda>(r, k). case board r k of None \<Rightarrow> True
                 | Some piece \<Rightarrow> color piece = c \<longrightarrow> getPossibleMoves board r k = Some (Inr []))
       sqs"
proof (induction sqs)
  case Nil
  show ?case by (simp add: returnR_returns)
next
  case (Cons sq sqs)
  obtain r k where sq: "sq = (r, k)" by (cases sq)
  show ?case
  proof (cases "board r k")
    case None
    with Cons sq show ?thesis by simp
  next
    case (Some piece)
    show ?thesis
    proof (cases "color piece = c")
      case False
      with Cons sq Some show ?thesis by simp
    next
      case True
      with Cons sq Some show ?thesis
        by (auto simp: bindR_returns returnR_returns)
    qed
  qed
qed

subsection \<open>Moves on well-formed boards\<close>

text \<open>An ordinary move on a well-formed board: no castling, no promotion.\<close>

lemma movePiece_plain:
  assumes "wfBoard board" and "validRow fromRow" and "validRow toRow"
    and "board fromRow fromCol = Some piece"
    and "\<not> (type piece = King \<and> \<bar>fromCol - toCol\<bar> = 2)"
    and "\<not> (type piece = Pawn \<and> (toRow = 0 \<or> toRow = 7))"
  shows "movePiece board fromRow fromCol toRow toCol promotionPiece =
           Inr (setCell (setCell board toRow toCol
                  (Some (if type piece = King \<or> type piece = Rook \<or> type piece = Pawn
                         then piece\<lparr>hasMoved := Some True\<rparr> else piece)))
                fromRow fromCol None)"
  using assms by (simp add: movePiece_def clone_wf Let_def)

lemma legalStep_intro:
  assumes "board (row src) (col src) = Some piece" and "color piece = side"
    and "isCheckmate board White = Some (Inr False)"
    and "isCheckmate board Black = Some (Inr False)"
    and "getPossibleMoves board (row src) (col src) = Some (Inr moves)"
    and "dst \<in> set moves"
    and "movePiece board (row src) (col src) (row dst) (col dst) None = Inr board'"
  shows "legalStep board side (src, dst) = Some board'"
  using assms by (simp add: legalStep_def)

lemma wf_hunt:
  "wfBoard hunt1" "wfBoard hunt2" "wfBoard hunt3" "wfBoard hunt4" "wfBoard hunt5" "wfBoard hunt6"
  by (simp_all add: hunt1_def hunt2_def hunt3_def hunt4_def hunt5_def hunt6_def
      wf_setCell wf_initialBoard)

lemma wf_queensideReady: "wfBoard queensideReady"
  by (simp add: queensideReady_def wf_setCell wf_initialBoard)

subsection \<open>The seven moves of the game, one by one\<close>

lemma hunt_step1:
  "legalStep initialBoard White (\<lparr>row = 6, col = 3\<rparr>, \<lparr>row = 4, col = 3\<rparr>) = Some hunt1"
proof (rule legalStep_intro[where piece = "\<lparr>type = Pawn, color = White, hasMoved = Some False\<rparr>"
      and moves = "[\<lparr>row = 5, col = 3\<rparr>, \<lparr>row = 4, col = 3\<rparr>]"])
  have c: "initialBoard 6 3 = Some \<lparr>type = Pawn, color = White, hasMoved = Some False\<rparr>"
    by code_simp
  then show "initialBoard (row \<lparr>row = 6, col = 3\<rparr>) (col \<lparr>row = 6, col = 3\<rparr>) = Some \<lparr>type = Pawn, color = White, hasMoved = Some False\<rparr>"
    by simp
  show "isCheckmate initialBoard White = Some (Inr False)" by code_simp
  show "isCheckmate initialBoard Black = Some (Inr False)" by code_simp
  have "getPossibleMoves initialBoard 6 3 = Some (Inr [\<lparr>row = 5, col = 3\<rparr>, \<lparr>row = 4, col = 3\<rparr>])"
    by code_simp
  then show "getPossibleMoves initialBoard (row \<lparr>row = 6, col = 3\<rparr>) (col \<lparr>row = 6, col = 3\<rparr>) = Some (Inr [\<lparr>row = 5, col = 3\<rparr>, \<lparr>row = 4, col = 3\<rparr>])"
    by simp
  show "movePiece initialBoard (row \<lparr>row = 6, col = 3\<rparr>) (col \<lparr>row = 6, col = 3\<rparr>) (row \<lparr>row = 4, col = 3\<rparr>) (col \<lparr>row = 4, col = 3\<rparr>) None = Inr hunt1"
    using movePiece_plain[OF wf_initialBoard _ _ c, of 4 3 None]
    by (simp add: validRow_def hunt1_def)
qed simp_all

lemma hunt_step2:
  "legalStep hunt1 Black (\<lparr>row = 1, col = 4\<rparr>, \<lparr>row = 2, col = 4\<rparr>) = Some hunt2"
proof (rule legalStep_intro[where piece = "\<lparr>type = Pawn, color = Black, hasMoved = Some False\<rparr>"
      and moves = "[\<lparr>row = 2, col = 4\<rparr>, \<lparr>row = 3, col = 4\<rparr>]"])
  have c: "hunt1 1 4 = Some \<lparr>type = Pawn, color = Black, hasMoved = Some False\<rparr>"
    by code_simp
  then show "hunt1 (row \<lparr>row = 1, col = 4\<rparr>) (col \<lparr>row = 1, col = 4\<rparr>) = Some \<lparr>type = Pawn, color = Black, hasMoved = Some False\<rparr>"
    by simp
  show "isCheckmate hunt1 White = Some (Inr False)" by code_simp
  show "isCheckmate hunt1 Black = Some (Inr False)" by code_simp
  have "getPossibleMoves hunt1 1 4 = Some (Inr [\<lparr>row = 2, col = 4\<rparr>, \<lparr>row = 3, col = 4\<rparr>])"
    by code_simp
  then show "getPossibleMoves hunt1 (row \<lparr>row = 1, col = 4\<rparr>) (col \<lparr>row = 1, col = 4\<rparr>) = Some (Inr [\<lparr>row = 2, col = 4\<rparr>, \<lparr>row = 3, col = 4\<rparr>])"
    by simp
  show "movePiece hunt1 (row \<lparr>row = 1, col = 4\<rparr>) (col \<lparr>row = 1, col = 4\<rparr>) (row \<lparr>row = 2, col = 4\<rparr>) (col \<lparr>row = 2, col = 4\<rparr>) None = Inr hunt2"
    using movePiece_plain[OF wf_hunt(1) _ _ c, of 2 4 None]
    by (simp add: validRow_def hunt2_def)
qed simp_all

lemma hunt_step3:
  "legalStep hunt2 White (\<lparr>row = 4, col = 3\<rparr>, \<lparr>row = 3, col = 3\<rparr>) = Some hunt3"
proof (rule legalStep_intro[where piece = "\<lparr>type = Pawn, color = White, hasMoved = Some True\<rparr>"
      and moves = "[\<lparr>row = 3, col = 3\<rparr>]"])
  have c: "hunt2 4 3 = Some \<lparr>type = Pawn, color = White, hasMoved = Some True\<rparr>"
    by code_simp
  then show "hunt2 (row \<lparr>row = 4, col = 3\<rparr>) (col \<lparr>row = 4, col = 3\<rparr>) = Some \<lparr>type = Pawn, color = White, hasMoved = Some True\<rparr>"
    by simp
  show "isCheckmate hunt2 White = Some (Inr False)" by code_simp
  show "isCheckmate hunt2 Black = Some (Inr False)" by code_simp
  have "getPossibleMoves hunt2 4 3 = Some (Inr [\<lparr>row = 3, col = 3\<rparr>])"
    by code_simp
  then show "getPossibleMoves hunt2 (row \<lparr>row = 4, col = 3\<rparr>) (col \<lparr>row = 4, col = 3\<rparr>) = Some (Inr [\<lparr>row = 3, col = 3\<rparr>])"
    by simp
  show "movePiece hunt2 (row \<lparr>row = 4, col = 3\<rparr>) (col \<lparr>row = 4, col = 3\<rparr>) (row \<lparr>row = 3, col = 3\<rparr>) (col \<lparr>row = 3, col = 3\<rparr>) None = Inr hunt3"
    using movePiece_plain[OF wf_hunt(2) _ _ c, of 3 3 None]
    by (simp add: validRow_def hunt3_def)
qed simp_all

lemma hunt_step4:
  "legalStep hunt3 Black (\<lparr>row = 0, col = 4\<rparr>, \<lparr>row = 1, col = 4\<rparr>) = Some hunt4"
proof (rule legalStep_intro[where piece = "\<lparr>type = King, color = Black, hasMoved = Some False\<rparr>"
      and moves = "[\<lparr>row = 1, col = 4\<rparr>]"])
  have c: "hunt3 0 4 = Some \<lparr>type = King, color = Black, hasMoved = Some False\<rparr>"
    by code_simp
  then show "hunt3 (row \<lparr>row = 0, col = 4\<rparr>) (col \<lparr>row = 0, col = 4\<rparr>) = Some \<lparr>type = King, color = Black, hasMoved = Some False\<rparr>"
    by simp
  show "isCheckmate hunt3 White = Some (Inr False)" by code_simp
  show "isCheckmate hunt3 Black = Some (Inr False)" by code_simp
  have "getPossibleMoves hunt3 0 4 = Some (Inr [\<lparr>row = 1, col = 4\<rparr>])"
    by code_simp
  then show "getPossibleMoves hunt3 (row \<lparr>row = 0, col = 4\<rparr>) (col \<lparr>row = 0, col = 4\<rparr>) = Some (Inr [\<lparr>row = 1, col = 4\<rparr>])"
    by simp
  show "movePiece hunt3 (row \<lparr>row = 0, col = 4\<rparr>) (col \<lparr>row = 0, col = 4\<rparr>) (row \<lparr>row = 1, col = 4\<rparr>) (col \<lparr>row = 1, col = 4\<rparr>) None = Inr hunt4"
    using movePiece_plain[OF wf_hunt(3) _ _ c, of 1 4 None]
    by (simp add: validRow_def hunt4_def)
qed simp_all

lemma hunt_step5:
  "legalStep hunt4 White (\<lparr>row = 3, col = 3\<rparr>, \<lparr>row = 2, col = 3\<rparr>) = Some hunt5"
proof (rule legalStep_intro[where piece = "\<lparr>type = Pawn, color = White, hasMoved = Some True\<rparr>"
      and moves = "[\<lparr>row = 2, col = 3\<rparr>, \<lparr>row = 2, col = 4\<rparr>]"])
  have c: "hunt4 3 3 = Some \<lparr>type = Pawn, color = White, hasMoved = Some True\<rparr>"
    by code_simp
  then show "hunt4 (row \<lparr>row = 3, col = 3\<rparr>) (col \<lparr>row = 3, col = 3\<rparr>) = Some \<lparr>type = Pawn, color = White, hasMoved = Some True\<rparr>"
    by simp
  show "isCheckmate hunt4 White = Some (Inr False)" by code_simp
  show "isCheckmate hunt4 Black = Some (Inr False)" by code_simp
  have "getPossibleMoves hunt4 3 3 = Some (Inr [\<lparr>row = 2, col = 3\<rparr>, \<lparr>row = 2, col = 4\<rparr>])"
    by code_simp
  then show "getPossibleMoves hunt4 (row \<lparr>row = 3, col = 3\<rparr>) (col \<lparr>row = 3, col = 3\<rparr>) = Some (Inr [\<lparr>row = 2, col = 3\<rparr>, \<lparr>row = 2, col = 4\<rparr>])"
    by simp
  show "movePiece hunt4 (row \<lparr>row = 3, col = 3\<rparr>) (col \<lparr>row = 3, col = 3\<rparr>) (row \<lparr>row = 2, col = 3\<rparr>) (col \<lparr>row = 2, col = 3\<rparr>) None = Inr hunt5"
    using movePiece_plain[OF wf_hunt(4) _ _ c, of 2 3 None]
    by (simp add: validRow_def hunt5_def)
qed simp_all

lemma hunt_step6:
  "legalStep hunt5 Black (\<lparr>row = 1, col = 0\<rparr>, \<lparr>row = 2, col = 0\<rparr>) = Some hunt6"
proof (rule legalStep_intro[where piece = "\<lparr>type = Pawn, color = Black, hasMoved = Some False\<rparr>"
      and moves = "[\<lparr>row = 2, col = 0\<rparr>, \<lparr>row = 3, col = 0\<rparr>]"])
  have c: "hunt5 1 0 = Some \<lparr>type = Pawn, color = Black, hasMoved = Some False\<rparr>"
    by code_simp
  then show "hunt5 (row \<lparr>row = 1, col = 0\<rparr>) (col \<lparr>row = 1, col = 0\<rparr>) = Some \<lparr>type = Pawn, color = Black, hasMoved = Some False\<rparr>"
    by simp
  show "isCheckmate hunt5 White = Some (Inr False)" by code_simp
  show "isCheckmate hunt5 Black = Some (Inr False)" by code_simp
  have "getPossibleMoves hunt5 1 0 = Some (Inr [\<lparr>row = 2, col = 0\<rparr>, \<lparr>row = 3, col = 0\<rparr>])"
    by code_simp
  then show "getPossibleMoves hunt5 (row \<lparr>row = 1, col = 0\<rparr>) (col \<lparr>row = 1, col = 0\<rparr>) = Some (Inr [\<lparr>row = 2, col = 0\<rparr>, \<lparr>row = 3, col = 0\<rparr>])"
    by simp
  show "movePiece hunt5 (row \<lparr>row = 1, col = 0\<rparr>) (col \<lparr>row = 1, col = 0\<rparr>) (row \<lparr>row = 2, col = 0\<rparr>) (col \<lparr>row = 2, col = 0\<rparr>) None = Inr hunt6"
    using movePiece_plain[OF wf_hunt(5) _ _ c, of 2 0 None]
    by (simp add: validRow_def hunt6_def)
qed simp_all

lemma hunt_step7:
  "legalStep hunt6 White (\<lparr>row = 2, col = 3\<rparr>, \<lparr>row = 1, col = 4\<rparr>) = Some hunt7"
proof (rule legalStep_intro[where piece = "\<lparr>type = Pawn, color = White, hasMoved = Some True\<rparr>"
      and moves = "[\<lparr>row = 1, col = 2\<rparr>, \<lparr>row = 1, col = 4\<rparr>]"])
  have c: "hunt6 2 3 = Some \<lparr>type = Pawn, color = White, hasMoved = Some True\<rparr>"
    by code_simp
  then show "hunt6 (row \<lparr>row = 2, col = 3\<rparr>) (col \<lparr>row = 2, col = 3\<rparr>) = Some \<lparr>type = Pawn, color = White, hasMoved = Some True\<rparr>"
    by simp
  show "isCheckmate hunt6 White = Some (Inr False)" by code_simp
  show "isCheckmate hunt6 Black = Some (Inr False)" by code_simp
  have "getPossibleMoves hunt6 2 3 = Some (Inr [\<lparr>row = 1, col = 2\<rparr>, \<lparr>row = 1, col = 4\<rparr>])"
    by code_simp
  then show "getPossibleMoves hunt6 (row \<lparr>row = 2, col = 3\<rparr>) (col \<lparr>row = 2, col = 3\<rparr>) = Some (Inr [\<lparr>row = 1, col = 2\<rparr>, \<lparr>row = 1, col = 4\<rparr>])"
    by simp
  show "movePiece hunt6 (row \<lparr>row = 2, col = 3\<rparr>) (col \<lparr>row = 2, col = 3\<rparr>) (row \<lparr>row = 1, col = 4\<rparr>) (col \<lparr>row = 1, col = 4\<rparr>) None = Inr hunt7"
    using movePiece_plain[OF wf_hunt(6) _ _ c, of 1 4 None]
    by (simp add: validRow_def hunt7_def)
qed simp_all

section \<open>The claims\<close>

text \<open>
  Claim C1 says that every destination returned by \<open>getPossibleMoves\<close> has its row and
  its column within 0..7. \<open>isValidPosition\<close> checks the column against 8 only, so a
  column of -1 passes: for the knight on b1 of the starting position the generator
  returns the destination row 6, column -1.
\<close>

theorem getPossibleMoves_leaves_board:
  "getPossibleMoves initialBoard 7 1 =
     Some (Inr [\<lparr>row = 5, col = 0\<rparr>, \<lparr>row = 5, col = 2\<rparr>, \<lparr>row = 6, col = -1\<rparr>])"
  by code_simp

text \<open>
  Claim C2 says that \<open>isKingUnderAttack\<close> terminates on every board and in-range square,
  each ray stopping at the first occupied square or at the board edge. With the white
  king on a1 and nothing else on its row, the leftward ray passes the edge and the call
  never returns.
\<close>

theorem isKingUnderAttack_never_returns:
  "isKingUnderAttack cornerKings 7 0 White = None"
proof (rule isKingUnderAttack_left_open)
  show "attackRay cornerKings White [Rook, Queen] (-1) 0 (7 - 1) 0 = Some False" by code_simp
  show "attackRay cornerKings White [Rook, Queen] 1 0 (7 + 1) 0 = Some False" by code_simp
  show "\<forall>k<0. cornerKings 7 k = None" by (simp add: cornerKings_def setCell_def emptyBoard_def)
qed (code_simp | simp)+

text \<open>
  Claim C3 says that after applying any move returned by \<open>getPossibleMoves\<close> for a piece
  of colour C, \<open>isCheck\<close> for C is false on the resulting board. With White ready to
  castle queenside, the generator returns the castling destination c1; on the board
  \<open>movePiece\<close> produces, the rook has left a1, nothing stands to the left of the king,
  and \<open>isCheck\<close> for White never returns.
\<close>

theorem castling_then_isCheck_never_returns:
  "getPossibleMoves queensideReady 7 4 = Some (Inr [\<lparr>row = 7, col = 3\<rparr>, \<lparr>row = 7, col = 2\<rparr>])
   \<and> movePiece queensideReady 7 4 7 2 None = Inr afterQueenside
   \<and> isCheck afterQueenside White = None"
proof (intro conjI)
  show "getPossibleMoves queensideReady 7 4
      = Some (Inr [\<lparr>row = 7, col = 3\<rparr>, \<lparr>row = 7, col = 2\<rparr>])"
    by code_simp
  have k: "queensideReady 7 4 = Some \<lparr>type = King, color = White, hasMoved = Some False\<rparr>"
    by code_simp
  have rk: "queensideReady 7 0 = Some \<lparr>type = Rook, color = White, hasMoved = Some False\<rparr>"
    by code_simp
  show "movePiece queensideReady 7 4 7 2 None = Inr afterQueenside"
    by (simp add: movePiece_def clone_wf[OF wf_queensideReady] k rk Let_def validRow_def
        afterQueenside_def)
  have fk: "findKing afterQueenside White = (7, 2)" by code_simp
  have "isKingUnderAttack afterQueenside 7 2 White = None"
  proof (rule isKingUnderAttack_left_open)
    show "attackRay afterQueenside White [Rook, Queen] (-1) 0 (7 - 1) 2 = Some False"
      by code_simp
    show "attackRay afterQueenside White [Rook, Queen] 1 0 (7 + 1) 2 = Some False"
      by code_simp
    show "\<forall>k<2. afterQueenside 7 k = None"
    proof (intro allI impI)
      fix k :: int
      assume "k < 2"
      then consider "k = 1" | "k = 0" | "k < 0" by linarith
      then show "afterQueenside 7 k = None"
      proof cases
        case 1
        then show ?thesis by (simp add: afterQueenside_def queensideReady_def setCell_def)
      next
        case 2
        then show ?thesis by (simp add: afterQueenside_def queensideReady_def setCell_def)
      next
        case 3
        from wf_outside[OF wf_initialBoard 3] have "initialBoard 7 k = None" .
        with 3 show ?thesis by (simp add: afterQueenside_def queensideReady_def setCell_def)
      qed
    qed
  qed (code_simp | simp)+
  then show "isCheck afterQueenside White = None"
    by (simp add: isCheck_def fk)
qed

text \<open>
  Claim C4: \<open>isCheckmate\<close> returns true exactly when \<open>isCheck\<close> returns true and
  \<open>getPossibleMoves\<close> returns the empty list for every square holding a piece of the
  colour; and when \<open>isCheck\<close> returns false, \<open>isCheckmate\<close> returns false at once.
\<close>

theorem isCheckmate_iff:
  "((isCheckmate board c = Some (Inr True)) =
     (isCheck board c = Some True \<and>
      list_all (\<lambda>(r, k). case board r k of None \<Rightarrow> True
                  | Some piece \<Rightarrow> color piece = c \<longrightarrow> getPossibleMoves board r k = Some (Inr []))
        allSquares))
   \<and> (isCheck board c = Some False \<longrightarrow> isCheckmate board c = Some (Inr False))"
proof
  show "(isCheckmate board c = Some (Inr True)) =
     (isCheck board c = Some True \<and>
      list_all (\<lambda>(r, k). case board r k of None \<Rightarrow> True
                  | Some piece \<Rightarrow> color piece = c \<longrightarrow> getPossibleMoves board r k = Some (Inr []))
        allSquares)"
    unfolding anyLegalMove_none[symmetric]
    by (auto simp: isCheckmate_def bindR_returns returnR_returns liftO_returns)
  show "isCheck board c = Some False \<longrightarrow> isCheckmate board c = Some (Inr False)"
    by (simp add: isCheckmate_def bindR_def liftO_def returnR_def)
qed

text \<open>The equivalence at a checkmate, and the early exit at the starting position.\<close>

theorem isCheckmate_iff_witness:
  "isCheck bothSmothered White = Some True
   \<and> isCheckmate bothSmothered White = Some (Inr True)
   \<and> isCheck initialBoard White = Some False
   \<and> isCheckmate initialBoard White = Some (Inr False)"
proof -
  have a: "isCheck bothSmothered White = Some True" by code_simp
  have b: "list_all (\<lambda>(r, k). case bothSmothered r k of None \<Rightarrow> True
                  | Some piece \<Rightarrow> color piece = White \<longrightarrow>
                      getPossibleMoves bothSmothered r k = Some (Inr []))
        allSquares" by code_simp
  have c: "isCheck initialBoard White = Some False" by code_simp
  from a b c isCheckmate_iff[of bothSmothered White] isCheckmate_iff[of initialBoard White]
  show ?thesis by blast
qed

text \<open>
  Claim C5 says that for a king on any square the generator offers the castling
  destination exactly when king and rook are unmoved, the squares between them are
  empty, and the king neither stands in nor passes through check. The code tests fixed
  columns; for an unmoved king that is not on the e-file they are not the squares between
  king and rook: with the king on c1 and a bishop on d1, e1 is offered.
\<close>

theorem castling_off_home_file:
  "getPossibleMoves kingOnC1 7 2 = Some (Inr [\<lparr>row = 7, col = 4\<rparr>])
   \<and> kingOnC1 7 3 = Some \<lparr>type = Bishop, color = White, hasMoved = None\<rparr>"
  by code_simp

text \<open>
  Claim C5 as amended: for a king on the e-file, whenever \<open>getPossibleMoves\<close> returns a
  list, the list has the kingside destination (column 6) exactly when the king's flag
  is not set, the corner square of column 7 holds a rook of the king's colour whose
  flag is not set, columns 5 and 6 of the row are empty, \<open>isCheck\<close> returns false, and
  \<open>wouldBeInCheck\<close> returns false for the king moved one and two squares; and likewise
  the queenside destination (column 2) with the rook in column 0 and columns 1, 2, 3.
\<close>

theorem castling_offered_iff:
  assumes "board pRow 4 = Some king" and "type king = King"
    and "getPossibleMoves board pRow 4 = Some (Inr moves)"
  shows "((\<lparr>row = pRow, col = 6\<rparr> \<in> set moves) =
           (hasMoved king \<noteq> Some True
            \<and> (\<exists>rook. board pRow 7 = Some rook \<and> type rook = Rook \<and> color rook = color king
                        \<and> hasMoved rook \<noteq> Some True)
            \<and> board pRow 5 = None \<and> board pRow 6 = None
            \<and> isCheck board (color king) = Some False
            \<and> wouldBeInCheck board pRow 4 pRow 5 (color king) = Some (Inr False)
            \<and> wouldBeInCheck board pRow 4 pRow 6 (color king) = Some (Inr False)))
       \<and> ((\<lparr>row = pRow, col = 2\<rparr> \<in> set moves) =
           (hasMoved king \<noteq> Some True
            \<and> (\<exists>rook. board pRow 0 = Some rook \<and> type rook = Rook \<and> color rook = color king
                        \<and> hasMoved rook \<noteq> Some True)
            \<and> board pRow 1 = None \<and> board pRow 2 = None \<and> board pRow 3 = None
            \<and> isCheck board (color king) = Some False
            \<and> wouldBeInCheck board pRow 4 pRow 3 (color king) = Some (Inr False)
            \<and> wouldBeInCheck board pRow 4 pRow 2 (color king) = Some (Inr False)))"
proof -
  from getPossibleMoves_king[OF assms] obtain castles where
    c: "castlingMoves board king pRow 4 = Some (Inr castles)"
    and s: "set moves = {m \<in> set (stepMoves board king pRow 4 kingMoves @ castles).
                 wouldBeInCheck board pRow 4 (row m) (col m) (color king) = Some (Inr False)}"
    by blast
  have kg: "kingsideGuard board king pRow =
      ((\<exists>rook. board pRow 7 = Some rook \<and> type rook = Rook \<and> color rook = color king
                        \<and> hasMoved rook \<noteq> Some True)
            \<and> board pRow 5 = None \<and> board pRow 6 = None)"
    by (cases "board pRow 7") (auto simp: kingsideGuard_def)
  have qg: "queensideGuard board king pRow =
      ((\<exists>rook. board pRow 0 = Some rook \<and> type rook = Rook \<and> color rook = color king
                        \<and> hasMoved rook \<noteq> Some True)
            \<and> board pRow 1 = None \<and> board pRow 2 = None \<and> board pRow 3 = None)"
    by (cases "board pRow 0") (auto simp: queensideGuard_def)
  have k: "(\<lparr>row = pRow, col = 6\<rparr> \<in> set moves) =
      (\<lparr>row = pRow, col = 4 + 2\<rparr> \<in> set castles
        \<and> wouldBeInCheck board pRow 4 pRow 6 (color king) = Some (Inr False))"
    using s stepMoves_col[of "\<lparr>row = pRow, col = 6\<rparr>" board king pRow 4] by auto
  have q: "(\<lparr>row = pRow, col = 2\<rparr> \<in> set moves) =
      (\<lparr>row = pRow, col = 4 - 2\<rparr> \<in> set castles
        \<and> wouldBeInCheck board pRow 4 pRow 2 (color king) = Some (Inr False))"
    using s stepMoves_col[of "\<lparr>row = pRow, col = 2\<rparr>" board king pRow 4] by auto
  show ?thesis
    unfolding k q castlingMoves_kingside[OF c] castlingMoves_queenside[OF c]
      castlePathSafe_True kg qg
    by auto
qed

text \<open>White ready to castle kingside: the destination g1 is in the list, and the
  conditions hold.\<close>

theorem castling_offered_iff_witness:
  "kingsideReady 7 4 = Some \<lparr>type = King, color = White, hasMoved = Some False\<rparr>
   \<and> getPossibleMoves kingsideReady 7 4
       = Some (Inr [\<lparr>row = 7, col = 5\<rparr>, \<lparr>row = 7, col = 6\<rparr>])
   \<and> kingsideReady 7 5 = None \<and> kingsideReady 7 6 = None
   \<and> isCheck kingsideReady White = Some False
   \<and> wouldBeInCheck kingsideReady 7 4 7 5 White = Some (Inr False)
   \<and> wouldBeInCheck kingsideReady 7 4 7 6 White = Some (Inr False)"
proof -
  have a: "kingsideReady 7 4 = Some \<lparr>type = King, color = White, hasMoved = Some False\<rparr>"
    by code_simp
  have b: "getPossibleMoves kingsideReady 7 4
       = Some (Inr [\<lparr>row = 7, col = 5\<rparr>, \<lparr>row = 7, col = 6\<rparr>])"
    by code_simp
  from castling_offered_iff[where board = kingsideReady and pRow = 7, OF a _ b] a b
  show ?thesis by simp
qed

text \<open>
  Claim C6: with no piece on the square a move starts from, \<open>movePiece\<close> returns the
  board unchanged: the copy it returns agrees with the board on every square of the
  grid, and is the board itself when the board holds nothing outside the grid.
\<close>

theorem movePiece_empty_from:
  assumes "validRow fromRow" and "board fromRow fromCol = None"
  shows "\<exists>b'. movePiece board fromRow fromCol toRow toCol promotionPiece = Inr b'
           \<and> (\<forall>r c. 0 \<le> r \<and> r < 8 \<and> 0 \<le> c \<and> c < 8 \<longrightarrow> b' r c = board r c)
           \<and> (wfBoard board \<longrightarrow> b' = board)"
proof -
  from assms(2) have "clone board fromRow fromCol = None"
    by (simp add: clone_def)
  with assms(1) have "movePiece board fromRow fromCol toRow toCol promotionPiece = Inr (clone board)"
    by (simp add: movePiece_def)
  then show ?thesis
    by (auto simp: clone_grid clone_wf)
qed

text \<open>A move from the empty square e4 of the starting position.\<close>

theorem movePiece_empty_from_witness:
  "validRow 4 \<and> initialBoard 4 4 = None \<and> wfBoard initialBoard
     \<and> movePiece initialBoard 4 4 3 4 None = Inr initialBoard"
proof -
  have v: "validRow 4" by (simp add: validRow_def)
  have e: "initialBoard 4 4 = None" by code_simp
  from movePiece_empty_from[where board = initialBoard and fromRow = 4 and fromCol = 4
      and toRow = 3 and toCol = 4 and promotionPiece = None] wf_initialBoard v e
  show ?thesis by auto
qed

text \<open>
  Claim C7 says that \<open>evaluateBoard\<close> returns -1000 whenever White is checkmated and
  +1000 whenever Black is. White is tested first: on a board where both are checkmated,
  Black is checkmated and the result is -1000.
\<close>

theorem evaluateBoard_both_mated:
  "isCheckmate bothSmothered Black = Some (Inr True)
   \<and> evaluateBoard bothSmothered = Some (Inr (NumLit (-1000)))"
  by code_simp

text \<open>
  Claim C7 as amended: \<open>evaluateBoard\<close> returns -1000 whenever \<open>isCheckmate\<close> returns
  true for White, and +1000 whenever it returns false for White and true for Black,
  whatever the material and the centre are worth.
\<close>

theorem evaluateBoard_mate:
  "(isCheckmate board White = Some (Inr True) \<longrightarrow> evaluateBoard board = Some (Inr (NumLit (-1000))))
   \<and> (isCheckmate board White = Some (Inr False) \<and> isCheckmate board Black = Some (Inr True)
        \<longrightarrow> evaluateBoard board = Some (Inr (NumLit 1000)))"
  by (simp add: evaluateBoard_def Let_def bindR_def returnR_def)

theorem evaluateBoard_mate_witness:
  "isCheckmate bothSmothered White = Some (Inr True)
   \<and> evaluateBoard bothSmothered = Some (Inr (NumLit (-1000)))
   \<and> isCheckmate blackSmothered White = Some (Inr False)
   \<and> isCheckmate blackSmothered Black = Some (Inr True)
   \<and> evaluateBoard blackSmothered = Some (Inr (NumLit 1000))"
proof -
  have a: "isCheckmate bothSmothered White = Some (Inr True)" by code_simp
  have b: "isCheckmate blackSmothered White = Some (Inr False)" by code_simp
  have c: "isCheckmate blackSmothered Black = Some (Inr True)" by code_simp
  from a b c evaluateBoard_mate[of bothSmothered] evaluateBoard_mate[of blackSmothered]
  show ?thesis by blast
qed

text \<open>
  Claim C8 says that every piece \<open>movePiece\<close> moves that is a king, rook or pawn carries
  \<open>hasMoved = true\<close> afterwards, the rook relocated by castling included. The castling
  block copies the rook as it is: after White castles kingside, the rook on f1 still
  has \<open>hasMoved = false\<close>.
\<close>

theorem castled_rook_flag:
  "(case movePiece kingsideReady 7 4 7 6 None of Inl e \<Rightarrow> None | Inr board \<Rightarrow> board 7 5)
     = Some \<lparr>type = Rook, color = White, hasMoved = Some False\<rparr>"
  by code_simp

text \<open>
  Claim C8 as amended: when \<open>movePiece\<close> takes a piece from a square of the 8 x 8 grid
  to a different square, the piece placed at the destination has the type it had, or the
  promotion type for a pawn reaching row 0 or 7, and the same colour; it carries
  \<open>hasMoved = true\<close> when that type is king, rook or pawn and keeps the flag it had
  otherwise, so a flag once true stays true. The rook relocated when a king goes from
  the e-file two columns sideways is the copy of the corner square, flag unchanged.
\<close>

theorem moved_flag:
  assumes "validRow fromRow" and "0 \<le> fromCol" and "fromCol < 8" and "validRow toRow"
    and "board fromRow fromCol = Some piece"
    and "(fromRow, fromCol) \<noteq> (toRow, toCol)"
  shows "\<exists>b' p'. movePiece board fromRow fromCol toRow toCol promotionPiece = Inr b'
           \<and> b' toRow toCol = Some p'
           \<and> type p' = (if type piece = Pawn \<and> (toRow = 0 \<or> toRow = 7)
                        then (case promotionPiece of None \<Rightarrow> Queen | Some t \<Rightarrow> t)
                        else type piece)
           \<and> color p' = color piece
           \<and> hasMoved p' = (if type p' = King \<or> type p' = Rook \<or> type p' = Pawn then Some True
                             else hasMoved piece)
           \<and> (type piece = King \<and> fromCol = 4 \<and> toCol = 6 \<longrightarrow> b' toRow 5 = clone board toRow 7)
           \<and> (type piece = King \<and> fromCol = 4 \<and> toCol = 2 \<longrightarrow> b' toRow 3 = clone board toRow 0)"
proof -
  from assms(1,2,3,5) have c: "clone board fromRow fromCol = Some piece"
    by (simp add: clone_def validRow_def)
  show ?thesis
    using assms(1,4,6) c
    by (auto simp: movePiece_def Let_def setCell_def)
qed

text \<open>White castling kingside: the king on g1 has the flag set, the rook on f1 is the
  copy of the one on h1.\<close>

theorem moved_flag_witness:
  "validRow 7 \<and> kingsideReady 7 4 = Some \<lparr>type = King, color = White, hasMoved = Some False\<rparr>
   \<and> (\<exists>b' p'. movePiece kingsideReady 7 4 7 6 None = Inr b' \<and> b' 7 6 = Some p'
         \<and> type p' = King \<and> hasMoved p' = Some True \<and> b' 7 5 = clone kingsideReady 7 7)"
proof -
  have v: "validRow 7" by (simp add: validRow_def)
  have c: "kingsideReady 7 4 = Some \<lparr>type = King, color = White, hasMoved = Some False\<rparr>"
    by code_simp
  have n: "((7::int), (4::int)) \<noteq> (7, 6)" by simp
  from moved_flag[where board = kingsideReady and fromRow = 7 and fromCol = 4 and toRow = 7
      and toCol = 6 and promotionPiece = None, OF v _ _ v c n] obtain b' p' where
    "movePiece kingsideReady 7 4 7 6 None = Inr b'" "b' 7 6 = Some p'"
    "type p' = King" "hasMoved p' = Some True" "b' 7 5 = clone kingsideReady 7 7"
    by auto
  with v c show ?thesis by blast
qed

text \<open>
  Claim C9: a pawn that \<open>movePiece\<close> takes from a square of the 8 x 8 grid to another
  square in row 0 or row 7, with no promotion type supplied, leaves a queen of the pawn's
  colour on the destination.
\<close>

theorem promotion_defaults_to_queen:
  assumes "validRow fromRow" and "0 \<le> fromCol" and "fromCol < 8"
    and "board fromRow fromCol = Some piece" and "type piece = Pawn"
    and "toRow = 0 \<or> toRow = 7"
    and "(fromRow, fromCol) \<noteq> (toRow, toCol)"
  shows "\<exists>b' q. movePiece board fromRow fromCol toRow toCol None = Inr b'
           \<and> b' toRow toCol = Some q \<and> type q = Queen \<and> color q = color piece"
proof -
  from assms(1,2,3,4) have c: "clone board fromRow fromCol = Some piece"
    by (simp add: clone_def validRow_def)
  from assms(6) have v: "validRow toRow" by (auto simp: validRow_def)
  show ?thesis
    using assms(1,5,6,7) c v
    by (auto simp: movePiece_def Let_def setCell_def)
qed

text \<open>The white pawn on a7 moved to a8.\<close>

theorem promotion_defaults_to_queen_witness:
  "validRow 1 \<and> pawnOnA7 1 0 = Some \<lparr>type = Pawn, color = White, hasMoved = Some True\<rparr>
   \<and> (\<exists>b' q. movePiece pawnOnA7 1 0 0 0 None = Inr b' \<and> b' 0 0 = Some q
         \<and> type q = Queen \<and> color q = White)"
proof -
  have v: "validRow 1" by (simp add: validRow_def)
  have c: "pawnOnA7 1 0 = Some \<lparr>type = Pawn, color = White, hasMoved = Some True\<rparr>"
    by code_simp
  have n: "((1::int), (0::int)) \<noteq> (0, 0)" by simp
  from promotion_defaults_to_queen[where board = pawnOnA7 and fromRow = 1 and fromCol = 0
      and toRow = 0 and toCol = 0, OF v _ _ c _ _ n] v c show ?thesis by simp
qed

text \<open>
  Claim C10 says that on every board reached from the starting position by alternately
  applying moves the generator produced for the side to move, each colour has exactly
  one king until that side is checkmated. The detector looks for hostile pawns one row
  on the wrong side of the king, so a king may step in front of a pawn and be taken: in
  the game below every move is one the generator returned, nobody is ever reported
  checkmated, and after the seventh move Black has no king.
\<close>

theorem king_captured:
  "playMoves initialBoard White kingHunt = Some hunt7
   \<and> kingCount hunt6 Black = 1 \<and> kingCount hunt7 Black = 0"
proof (intro conjI)
  show "playMoves initialBoard White kingHunt = Some hunt7"
    by (simp add: kingHunt_def opponent_def hunt_step1 hunt_step2 hunt_step3 hunt_step4
        hunt_step5 hunt_step6 hunt_step7)
  show "kingCount hunt6 Black = 1" by code_simp
  show "kingCount hunt7 Black = 0" by code_simp
qed

end
